theory Spec2Isabelle
  imports Complex_Main
begin

section \<open>Numbers\<close>

text \<open>
  The numbers of the component (pixel widths, touch positions, translations, velocities,
  thresholds) are the finite doubles, read as reals with exact arithmetic. The two places
  of the source where a number that is not finite can arise are written out: the result
  of \<^verbatim>\<open>Number(...)\<close> on a string, and the division by the drawer width in
  \<^verbatim>\<open>progress\<close>.
\<close>

datatype number = Finite real | NaN | PosInfinity | NegInfinity

text \<open>\<^verbatim>\<open>a > b\<close> and \<^verbatim>\<open>a <= b\<close> for a finite right operand: every comparison with NaN is false.\<close>

fun gt :: "number \<Rightarrow> real \<Rightarrow> bool" where
  "gt (Finite a) b = (a > b)"
| "gt NaN b = False"
| "gt PosInfinity b = True"
| "gt NegInfinity b = False"

fun le :: "number \<Rightarrow> real \<Rightarrow> bool" where
  "le (Finite a) b = (a \<le> b)"
| "le NaN b = False"
| "le PosInfinity b = False"
| "le NegInfinity b = True"

section \<open>Overlay.tsx\<close>

definition PROGRESS_EPSILON :: real where
  "PROGRESS_EPSILON = 5 / 100"

record OverlayStyle =
  opacity :: number
  zIndex :: int

text \<open>The worklet of \<^verbatim>\<open>useAnimatedStyle\<close> in \<^verbatim>\<open>Overlay\<close>, as a function of \<^verbatim>\<open>progress.value\<close>.\<close>

definition animatedStyle :: "number \<Rightarrow> OverlayStyle" where
  "animatedStyle progress_value =
     \<lparr> opacity = progress_value,
       zIndex = (if gt progress_value PROGRESS_EPSILON then 0 else - 1) \<rparr>"

section \<open>Drawer.tsx: props and constants\<close>

definition SWIPE_DISTANCE_THRESHOLD_DEFAULT :: real where
  "SWIPE_DISTANCE_THRESHOLD_DEFAULT = 60"

definition SWIPE_DISTANCE_MINIMUM :: real where
  "SWIPE_DISTANCE_MINIMUM = 5"

definition DEFAULT_DRAWER_WIDTH :: string where
  "DEFAULT_DRAWER_WIDTH = ''80%''"

datatype DrawerPosition = Left | Right

datatype DrawerType = Front | Back | Slide | Permanent

datatype KeyboardDismissMode = DismissNone | OnDrag

datatype StatusBarAnimation = AnimSlide | AnimNone | AnimFade

text \<open>\<^verbatim>\<open>State\<close> of react-native-gesture-handler.\<close>

datatype GestureState = UNDETERMINED | FAILED | BEGAN | CANCELLED | ACTIVE | END

text \<open>A style width is a number or a string; the style, and its width, may be missing.\<close>

datatype DimensionValue = Num real | Str string

record ViewStyle =
  style_width :: "DimensionValue option"

text \<open>
  A key of an object is absent, or present with its value. Of the props spread onto the
  gesture handler, the one the component also sets itself: \<^verbatim>\<open>enabled?: boolean\<close>, whose
  value, when the key is present, is a boolean or \<^verbatim>\<open>undefined\<close> (\<open>None\<close>).
\<close>

datatype 'a own_property = Absent | Present 'a

record GestureHandlerProps =
  enabled :: "bool option own_property"

record Dimensions =
  width :: real
  height :: real

text \<open>The props after destructuring, that is with the defaults of the signature filled in.\<close>

record Props =
  open_prop :: bool
  gestureEnabled :: bool
  swipeEnabled :: bool
  drawerPosition :: DrawerPosition
  drawerType :: DrawerType
  keyboardDismissMode :: KeyboardDismissMode
  swipeEdgeWidth :: real
  swipeDistanceThreshold :: real
  swipeVelocityThreshold :: real
  hideStatusBarOnOpen :: bool
  statusBarAnimation :: StatusBarAnimation
  drawerStyle :: "ViewStyle option"
  gestureHandlerProps :: "GestureHandlerProps option"
  dimensions :: Dimensions

section \<open>Drawer.tsx: the width of the drawer\<close>

definition endsWith_percent :: "string \<Rightarrow> bool" where
  "endsWith_percent s = (s \<noteq> [] \<and> last s = CHR ''%'')"

text \<open>\<^verbatim>\<open>width.replace(/%$/, '')\<close>: a percent sign at the very end is removed.\<close>

definition replace_percent :: "string \<Rightarrow> string" where
  "replace_percent s = (if endsWith_percent s then butlast s else s)"

text \<open>
  \<^verbatim>\<open>getDrawerWidth\<close>. The conversion \<^verbatim>\<open>Number\<close> of a string is the language's, not the
  component's: it is a parameter. \<^verbatim>\<open>Number.isFinite\<close> is the case \<open>Finite\<close>.
\<close>

text \<open>
  \<^verbatim>\<open>StyleSheet.flatten(drawerStyle) || {}\<close>, read at \<^verbatim>\<open>width\<close>: a missing style has no width.
\<close>

definition flatten_width :: "ViewStyle option \<Rightarrow> DimensionValue option" where
  "flatten_width style = (case style of None \<Rightarrow> None | Some st \<Rightarrow> style_width st)"

definition getDrawerWidth :: "(string \<Rightarrow> number) \<Rightarrow> Props \<Rightarrow> real" where
  "getDrawerWidth Number p =
     (let w = (case flatten_width (drawerStyle p) of
                 None \<Rightarrow> Str DEFAULT_DRAWER_WIDTH
               | Some v \<Rightarrow> v)
      in case w of
           Str s \<Rightarrow>
             (if endsWith_percent s then
                (case Number (replace_percent s) of
                   Finite percentage \<Rightarrow> width (dimensions p) * (percentage / 100)
                 | _ \<Rightarrow> 0)
              else 0)
         | Num n \<Rightarrow> n)"

section \<open>Drawer.tsx: shared values and the gesture handler\<close>

text \<open>
  The shared values \<^verbatim>\<open>touchX\<close>, \<^verbatim>\<open>translationX\<close> and \<^verbatim>\<open>gestureState\<close>, the context
  \<^verbatim>\<open>ctx.startX\<close> of the gesture handler, and the spring that \<^verbatim>\<open>withSpring\<close> has put on
  \<^verbatim>\<open>translationX\<close>, if one is running: its target and its initial velocity.
\<close>

record Motion =
  touchX_value :: real
  translationX_value :: real
  translationX_spring :: "(real \<times> real option) option"
  gestureState_value :: GestureState
  startX :: real

record GestureEvent =
  event_state :: GestureState
  event_x :: real
  event_translationX :: real
  event_velocityX :: real

definition isOpen :: "Props \<Rightarrow> bool" where
  "isOpen p = (if drawerType p = Permanent then True else open_prop p)"

definition isRight :: "Props \<Rightarrow> bool" where
  "isRight p = (drawerPosition p = Right)"

text \<open>
  The closures of the component read \<^verbatim>\<open>drawerWidth\<close>, computed once per render; here it
  is the argument \<open>drawerWidth\<close> of each of them.
\<close>

definition getDrawerTranslationX :: "Props \<Rightarrow> real \<Rightarrow> bool \<Rightarrow> real" where
  "getDrawerTranslationX p drawerWidth opn =
     (if drawerPosition p = Left
      then (if opn then 0 else - drawerWidth)
      else (if opn then width (dimensions p) - drawerWidth else width (dimensions p)))"

text \<open>
  \<^verbatim>\<open>toggleDrawer\<close>: assigning \<^verbatim>\<open>withSpring(...)\<close> to \<^verbatim>\<open>translationX.value\<close> starts a spring
  towards the target and leaves the current number where it is.
\<close>

definition toggleDrawer :: "Props \<Rightarrow> real \<Rightarrow> bool \<Rightarrow> real option \<Rightarrow> Motion \<Rightarrow> Motion" where
  "toggleDrawer p drawerWidth opn velocity m =
     (let translateX = getDrawerTranslationX p drawerWidth opn
      in m \<lparr> touchX_value := (if drawerPosition p = Left then 0 else width (dimensions p)),
             translationX_spring := Some (translateX, velocity) \<rparr>)"

definition onStart :: "GestureEvent \<Rightarrow> Motion \<Rightarrow> Motion" where
  "onStart event m =
     m \<lparr> startX := translationX_value m, gestureState_value := event_state event \<rparr>"

text \<open>Assigning a number to \<^verbatim>\<open>translationX.value\<close> ends the spring that was running on it.\<close>

definition onActive :: "GestureEvent \<Rightarrow> Motion \<Rightarrow> Motion" where
  "onActive event m =
     m \<lparr> touchX_value := event_x event,
         translationX_value := startX m + event_translationX event,
         translationX_spring := None,
         gestureState_value := event_state event \<rparr>"

text \<open>The expression bound to \<^verbatim>\<open>nextOpen\<close> in \<^verbatim>\<open>onEnd\<close>.\<close>

definition nextOpen :: "Props \<Rightarrow> GestureEvent \<Rightarrow> bool" where
  "nextOpen p event =
     (if (\<bar>event_translationX event\<bar> > SWIPE_DISTANCE_MINIMUM \<and>
          \<bar>event_translationX event\<bar> > swipeVelocityThreshold p) \<or>
         \<bar>event_translationX event\<bar> > swipeDistanceThreshold p
      then (if drawerPosition p = Left
            then (if event_velocityX event = 0 then event_translationX event
                  else event_velocityX event) > 0
            else (if event_velocityX event = 0 then event_translationX event
                  else event_velocityX event) < 0)
      else open_prop p)"

definition onEnd :: "Props \<Rightarrow> real \<Rightarrow> GestureEvent \<Rightarrow> Motion \<Rightarrow> Motion" where
  "onEnd p drawerWidth event m =
     toggleDrawer p drawerWidth (nextOpen p event) (Some (event_velocityX event))
       (m \<lparr> gestureState_value := event_state event \<rparr>)"

section \<open>Drawer.tsx: the derived values\<close>

definition minmax :: "real \<Rightarrow> real \<Rightarrow> real \<Rightarrow> real" where
  "minmax val start finish = min (max val start) finish"

definition touchDistance :: "Props \<Rightarrow> real \<Rightarrow> Motion \<Rightarrow> real" where
  "touchDistance p drawerWidth m =
     (if drawerType p = Front \<and> gestureState_value m = ACTIVE
      then (if drawerPosition p = Left
            then min (translationX_value m - touchX_value m + drawerWidth) 0
            else min (translationX_value m - touchX_value m)
                     (width (dimensions p) - drawerWidth))
      else 0)"

definition translateX :: "Props \<Rightarrow> real \<Rightarrow> Motion \<Rightarrow> real" where
  "translateX p drawerWidth m =
     (if drawerPosition p = Left
      then minmax (translationX_value m - touchDistance p drawerWidth m) (- drawerWidth) 0
      else minmax (translationX_value m - touchDistance p drawerWidth m)
                  (width (dimensions p) - drawerWidth) (width (dimensions p)))"

text \<open>
  \<^verbatim>\<open>progress\<close>, as a function of \<^verbatim>\<open>translateX.value\<close>. A division by a zero width gives
  NaN or an infinity, never a finite number.
\<close>

definition progress :: "real \<Rightarrow> real \<Rightarrow> number" where
  "progress drawerWidth translateX_value =
     (let numerator = drawerWidth - \<bar>translateX_value\<bar>
      in if drawerWidth \<noteq> 0 then Finite (numerator / drawerWidth)
         else if numerator = 0 then NaN
         else if numerator > 0 then PosInfinity
         else NegInfinity)"

section \<open>Frames\<close>

text \<open>
  What can write the shared values between two evaluations of the derived values: the
  three gesture callbacks, a call of \<^verbatim>\<open>toggleDrawer\<close>, a frame of the running spring
  writing the number it has reached, and the spring coming to rest on its target. The
  integrator of the spring is the animation library's: a frame may write any number, and
  \<open>SpringRest\<close> is the event of the spring having reached its target, which nothing here
  proves to occur.
\<close>

datatype Frame =
    GestureStart GestureEvent
  | GestureActive GestureEvent
  | GestureEnd GestureEvent
  | Toggle bool "real option"
  | SpringFrame real
  | SpringRest

definition springRest :: "Motion \<Rightarrow> Motion" where
  "springRest m =
     (case translationX_spring m of
        None \<Rightarrow> m
      | Some (toValue, velocity) \<Rightarrow>
          m \<lparr> translationX_value := toValue, translationX_spring := None \<rparr>)"

fun frame :: "Props \<Rightarrow> real \<Rightarrow> Motion \<Rightarrow> Frame \<Rightarrow> Motion" where
  "frame p drawerWidth m (GestureStart event) = onStart event m"
| "frame p drawerWidth m (GestureActive event) = onActive event m"
| "frame p drawerWidth m (GestureEnd event) = onEnd p drawerWidth event m"
| "frame p drawerWidth m (Toggle opn velocity) = toggleDrawer p drawerWidth opn velocity m"
| "frame p drawerWidth m (SpringFrame v) =
     (if translationX_spring m = None then m else m \<lparr> translationX_value := v \<rparr>)"
| "frame p drawerWidth m SpringRest = springRest m"

section \<open>Drawer.tsx: the gesture handler's \<^verbatim>\<open>enabled\<close>\<close>

text \<open>
  The value of the prop \<^verbatim>\<open>enabled\<close> that \<^verbatim>\<open>PanGestureHandler\<close> receives, \<open>None\<close> for
  \<^verbatim>\<open>undefined\<close>: the component sets it, and \<^verbatim>\<open>{...gestureHandlerProps}\<close> is spread after
  it, so a key \<^verbatim>\<open>enabled\<close> that the spread props own replaces it, whatever its value.
  Spreading \<^verbatim>\<open>undefined\<close> props adds no key.
\<close>

definition panGestureHandler_enabled :: "Props \<Rightarrow> bool option" where
  "panGestureHandler_enabled p =
     (let own = Some (drawerType p \<noteq> Permanent \<and> gestureEnabled p \<and> swipeEnabled p)
      in case gestureHandlerProps p of
           None \<Rightarrow> own
         | Some g \<Rightarrow> (case enabled g of Absent \<Rightarrow> own | Present e \<Rightarrow> e))"

section \<open>Drawer.tsx: the host side\<close>

text \<open>
  The calls that leave the component, in the order they are made, and the interaction
  handles: the ref of the component, and the handles that \<^verbatim>\<open>InteractionManager\<close> holds
  (\<^verbatim>\<open>createInteractionHandle\<close> hands out the next number and keeps it until
  \<^verbatim>\<open>clearInteractionHandle\<close>).
\<close>

datatype HostCall = SetOpen bool | KeyboardDismiss | StatusBarSetHidden bool StatusBarAnimation

record Host =
  interactionHandleRef :: "nat option"
  interactionHandles :: "nat set"
  nextHandle :: nat
  calls :: "HostCall list"

definition hideStatusBar :: "Props \<Rightarrow> bool \<Rightarrow> Host \<Rightarrow> Host" where
  "hideStatusBar p hide h =
     (if hideStatusBarOnOpen p
      then h \<lparr> calls := calls h @ [StatusBarSetHidden hide (statusBarAnimation p)] \<rparr>
      else h)"

definition startInteraction :: "Host \<Rightarrow> Host" where
  "startInteraction h =
     h \<lparr> interactionHandleRef := Some (nextHandle h),
         interactionHandles := insert (nextHandle h) (interactionHandles h),
         nextHandle := Suc (nextHandle h) \<rparr>"

definition endInteraction :: "Host \<Rightarrow> Host" where
  "endInteraction h =
     (case interactionHandleRef h of
        None \<Rightarrow> h
      | Some k \<Rightarrow> h \<lparr> interactionHandles := interactionHandles h - {k},
                       interactionHandleRef := None \<rparr>)"

definition hideKeyboard :: "Props \<Rightarrow> Host \<Rightarrow> Host" where
  "hideKeyboard p h =
     (if keyboardDismissMode p = OnDrag then h \<lparr> calls := calls h @ [KeyboardDismiss] \<rparr> else h)"

definition onGestureStart :: "Props \<Rightarrow> Host \<Rightarrow> Host" where
  "onGestureStart p h = hideStatusBar p True (hideKeyboard p (startInteraction h))"

definition onGestureEnd :: "Host \<Rightarrow> Host" where
  "onGestureEnd h = endInteraction h"

text \<open>
  Unmounting runs the cleanups that the effects of the component returned. Off the web
  there is one: \<^verbatim>\<open>() => hideStatusBar(false)\<close>.
\<close>

definition unmount :: "Props \<Rightarrow> Host \<Rightarrow> Host" where
  "unmount p h = hideStatusBar p False h"

section \<open>Drawer.tsx: the reaction\<close>

text \<open>The two worklets of \<^verbatim>\<open>useAnimatedReaction\<close>, the first as a function of \<^verbatim>\<open>translateX.value\<close>.\<close>

definition reaction_prepare :: "Props \<Rightarrow> real \<Rightarrow> real \<Rightarrow> bool option" where
  "reaction_prepare p drawerWidth translateX_value =
     (if translateX_value = getDrawerTranslationX p drawerWidth True then Some True
      else if translateX_value = getDrawerTranslationX p drawerWidth False then Some False
      else None)"

definition reaction_react :: "bool option \<Rightarrow> Host \<Rightarrow> Host" where
  "reaction_react opn h =
     (case opn of None \<Rightarrow> h | Some b \<Rightarrow> h \<lparr> calls := calls h @ [SetOpen b] \<rparr>)"

definition reaction :: "Props \<Rightarrow> real \<Rightarrow> Motion \<Rightarrow> Host \<Rightarrow> Host" where
  "reaction p drawerWidth m h =
     reaction_react (reaction_prepare p drawerWidth (translateX p drawerWidth m)) h"

section \<open>Frames with their host calls\<close>

text \<open>
  \<^verbatim>\<open>onStart\<close> and \<^verbatim>\<open>onEnd\<close> hand \<^verbatim>\<open>onGestureStart\<close> and \<^verbatim>\<open>onGestureEnd\<close> to the host with
  \<^verbatim>\<open>runOnJS\<close>. In \<open>step\<close> the derived value is recomputed and the reaction evaluated on
  it after every frame.
\<close>

fun host_frame :: "Props \<Rightarrow> Host \<Rightarrow> Frame \<Rightarrow> Host" where
  "host_frame p h (GestureStart event) = onGestureStart p h"
| "host_frame p h (GestureEnd event) = onGestureEnd h"
| "host_frame p h (GestureActive event) = h"
| "host_frame p h (Toggle opn velocity) = h"
| "host_frame p h (SpringFrame v) = h"
| "host_frame p h SpringRest = h"

definition step :: "Props \<Rightarrow> real \<Rightarrow> Motion \<times> Host \<Rightarrow> Frame \<Rightarrow> Motion \<times> Host" where
  "step p drawerWidth s fr =
     (let m = frame p drawerWidth (fst s) fr
      in (m, reaction p drawerWidth m (host_frame p (snd s) fr)))"

definition run :: "Props \<Rightarrow> real \<Rightarrow> Motion \<times> Host \<Rightarrow> Frame list \<Rightarrow> Motion \<times> Host" where
  "run p drawerWidth s frames = foldl (step p drawerWidth) s frames"

text \<open>
  When the reaction is evaluated is the animation library's: at the most after every frame,
  as \<open>step\<close> does, and at the least after every frame that has changed
  \<^verbatim>\<open>translateX.value\<close>, the shared value that its first worklet reads, as
  \<open>step_on_change\<close> does.
\<close>

definition step_on_change ::
  "Props \<Rightarrow> real \<Rightarrow> Motion \<times> Host \<Rightarrow> Frame \<Rightarrow> Motion \<times> Host" where
  "step_on_change p drawerWidth s fr =
     (let m = frame p drawerWidth (fst s) fr;
          h = host_frame p (snd s) fr
      in (m, if translateX p drawerWidth m = translateX p drawerWidth (fst s) then h
             else reaction p drawerWidth m h))"

definition run_on_change ::
  "Props \<Rightarrow> real \<Rightarrow> Motion \<times> Host \<Rightarrow> Frame list \<Rightarrow> Motion \<times> Host" where
  "run_on_change p drawerWidth s frames = foldl (step_on_change p drawerWidth) s frames"

text \<open>The arguments of the calls of \<^verbatim>\<open>setOpen\<close> among the calls made, in order.\<close>

fun setOpen_calls :: "HostCall list \<Rightarrow> bool list" where
  "setOpen_calls [] = []"
| "setOpen_calls (SetOpen b # cs) = b # setOpen_calls cs"
| "setOpen_calls (KeyboardDismiss # cs) = setOpen_calls cs"
| "setOpen_calls (StatusBarSetHidden hide anim # cs) = setOpen_calls cs"

text \<open>The frames that begin or end a gesture.\<close>

fun gesture_boundary :: "Frame \<Rightarrow> bool" where
  "gesture_boundary (GestureStart event) = True"
| "gesture_boundary (GestureEnd event) = True"
| "gesture_boundary (GestureActive event) = False"
| "gesture_boundary (Toggle opn velocity) = False"
| "gesture_boundary (SpringFrame v) = False"
| "gesture_boundary SpringRest = False"

section \<open>The wording of the specification\<close>

text \<open>
  \<^verbatim>\<open>isOpenSettled\<close> as the specification defines it: true iff the clamped offset exactly
  equals the open target of the current props. It is the first test of the reaction.
\<close>

definition isOpenSettled :: "Props \<Rightarrow> real \<Rightarrow> Motion \<Rightarrow> bool" where
  "isOpenSettled p drawerWidth m =
     (translateX p drawerWidth m = getDrawerTranslationX p drawerWidth True)"


definition effectiveSpeed :: "GestureEvent \<Rightarrow> real" where
  "effectiveSpeed event =
     (if event_velocityX event = 0 then event_translationX event else event_velocityX event)"

text \<open>
  The rule as the specification words it, to be compared with \<open>nextOpen\<close>: the minimum
  distance is required of both thresholds.
\<close>

definition spec_nextOpen :: "Props \<Rightarrow> GestureEvent \<Rightarrow> bool" where
  "spec_nextOpen p event =
     (if \<bar>event_translationX event\<bar> > SWIPE_DISTANCE_MINIMUM \<and>
         (\<bar>event_translationX event\<bar> > swipeVelocityThreshold p \<or>
          \<bar>event_translationX event\<bar> > swipeDistanceThreshold p)
      then (if drawerPosition p = Left then effectiveSpeed event > 0
            else effectiveSpeed event < 0)
      else open_prop p)"

section \<open>Example inputs\<close>

text \<open>
  The defaults of the signature on a viewport of 400 by 800, the drawer not requested
  open; a drawer at rest, no gesture seen yet; a host holding no handle; an active sample
  of a gesture that began at touch position \<open>x0\<close> and has moved by \<open>t\<close>.
\<close>

definition example_props :: "DrawerPosition \<Rightarrow> DrawerType \<Rightarrow> Props" where
  "example_props pos typ =
     \<lparr> open_prop = False, gestureEnabled = True, swipeEnabled = True,
       drawerPosition = pos, drawerType = typ, keyboardDismissMode = OnDrag,
       swipeEdgeWidth = 32, swipeDistanceThreshold = SWIPE_DISTANCE_THRESHOLD_DEFAULT,
       swipeVelocityThreshold = 500, hideStatusBarOnOpen = False,
       statusBarAnimation = AnimSlide, drawerStyle = None, gestureHandlerProps = None,
       dimensions = \<lparr> width = 400, height = 800 \<rparr> \<rparr>"

text \<open>
  A stand-in for \<^verbatim>\<open>Number\<close> on the strings of the examples: \<^verbatim>\<open>'80'\<close> and \<^verbatim>\<open>'50'\<close> are
  the numbers they spell, \<^verbatim>\<open>'Infinity'\<close> is infinity, and the examples use no other string
  than \<^verbatim>\<open>'abc'\<close>, which is NaN.
\<close>

definition example_Number :: "string \<Rightarrow> number" where
  "example_Number s =
     (if s = ''80'' then Finite 80 else if s = ''50'' then Finite 50
      else if s = ''Infinity'' then PosInfinity else NaN)"

definition at_rest :: "real \<Rightarrow> Motion" where
  "at_rest offset =
     \<lparr> touchX_value = 0, translationX_value = offset, translationX_spring = None,
       gestureState_value = UNDETERMINED, startX = 0 \<rparr>"

definition idle_host :: Host where
  "idle_host =
     \<lparr> interactionHandleRef = None, interactionHandles = {}, nextHandle = 1, calls = [] \<rparr>"

definition sample :: "GestureState \<Rightarrow> real \<Rightarrow> real \<Rightarrow> real \<Rightarrow> GestureEvent" where
  "sample st x0 t v =
     \<lparr> event_state = st, event_x = x0 + t, event_translationX = t, event_velocityX = v \<rparr>"

section \<open>Basic facts\<close>

lemma minmax_upper: "minmax v lo hi \<le> hi"
  by (simp add: minmax_def)

lemma minmax_lower: "lo \<le> hi \<Longrightarrow> lo \<le> minmax v lo hi"
  by (simp add: minmax_def)

lemma translateX_bounds:
  assumes "0 \<le> drawerWidth"
  shows "drawerPosition p = Left \<Longrightarrow>
           - drawerWidth \<le> translateX p drawerWidth m \<and> translateX p drawerWidth m \<le> 0"
    and "drawerPosition p = Right \<Longrightarrow>
           width (dimensions p) - drawerWidth \<le> translateX p drawerWidth m \<and>
           translateX p drawerWidth m \<le> width (dimensions p)"
  using assms by (simp_all add: translateX_def minmax_upper minmax_lower)

lemma fst_step: "fst (step p drawerWidth s fr) = frame p drawerWidth (fst s) fr"
  by (simp add: step_def Let_def)

lemma snd_step:
  "snd (step p drawerWidth s fr) =
     reaction p drawerWidth (frame p drawerWidth (fst s) fr) (host_frame p (snd s) fr)"
  by (simp add: step_def Let_def)

lemma run_Nil: "run p drawerWidth s [] = s"
  by (simp add: run_def)

lemma run_Cons:
  "run p drawerWidth s (fr # frames) = run p drawerWidth (step p drawerWidth s fr) frames"
  by (simp add: run_def)

lemma run_snoc:
  "run p drawerWidth s (frames @ [fr]) = step p drawerWidth (run p drawerWidth s frames) fr"
  by (simp add: run_def)

lemma setOpen_calls_append: "setOpen_calls (xs @ ys) = setOpen_calls xs @ setOpen_calls ys"
  by (induction xs rule: setOpen_calls.induct) simp_all

lemma step_pair:
  "step p drawerWidth (m, h) fr =
     (frame p drawerWidth m fr,
      reaction p drawerWidth (frame p drawerWidth m fr) (host_frame p h fr))"
  by (simp add: step_def Let_def)

lemma step_on_change_pair:
  "step_on_change p drawerWidth (m, h) fr =
     (frame p drawerWidth m fr,
      if translateX p drawerWidth (frame p drawerWidth m fr) = translateX p drawerWidth m
      then host_frame p h fr
      else reaction p drawerWidth (frame p drawerWidth m fr) (host_frame p h fr))"
  by (simp add: step_on_change_def Let_def)


lemma snd_step_on_change:
  "snd (step_on_change p drawerWidth s fr) =
     (if translateX p drawerWidth (frame p drawerWidth (fst s) fr)
           = translateX p drawerWidth (fst s)
      then host_frame p (snd s) fr
      else reaction p drawerWidth (frame p drawerWidth (fst s) fr) (host_frame p (snd s) fr))"
  by (simp add: step_on_change_def Let_def)


lemma setOpen_calls_host_frame:
  "setOpen_calls (calls (host_frame p h fr)) = setOpen_calls (calls h)"
  by (cases fr)
     (simp_all add: onGestureStart_def onGestureEnd_def hideStatusBar_def hideKeyboard_def
        startInteraction_def endInteraction_def setOpen_calls_append split: option.splits)

lemma setOpen_calls_reaction:
  "setOpen_calls (calls (reaction p drawerWidth m h)) =
     setOpen_calls (calls h) @
       (if translateX p drawerWidth m = getDrawerTranslationX p drawerWidth True then [True]
        else if translateX p drawerWidth m = getDrawerTranslationX p drawerWidth False
        then [False] else [])"
  by (simp add: reaction_def reaction_react_def reaction_prepare_def setOpen_calls_append)

lemma touchDistance_zero:
  "drawerType p \<noteq> Front \<or> gestureState_value m \<noteq> ACTIVE \<Longrightarrow>
   touchDistance p drawerWidth m = 0"
  by (auto simp add: touchDistance_def)

lemma translateX_unlagged:
  "drawerType p \<noteq> Front \<or> gestureState_value m \<noteq> ACTIVE \<Longrightarrow>
   translateX p drawerWidth m =
     (if drawerPosition p = Left then minmax (translationX_value m) (- drawerWidth) 0
      else minmax (translationX_value m) (width (dimensions p) - drawerWidth)
             (width (dimensions p)))"
  by (simp add: translateX_def touchDistance_zero)



lemma translateX_springRest_toggleDrawer:
  assumes "0 \<le> drawerWidth"
    and "drawerType p \<noteq> Front \<or> gestureState_value m \<noteq> ACTIVE"
  shows "translateX p drawerWidth (springRest (toggleDrawer p drawerWidth opn v m))
           = getDrawerTranslationX p drawerWidth opn"
proof -
  have "drawerType p \<noteq> Front \<or>
        gestureState_value (springRest (toggleDrawer p drawerWidth opn v m)) \<noteq> ACTIVE"
    using assms(2) by (simp add: springRest_def toggleDrawer_def)
  then show ?thesis
    using assms(1)
    by (simp add: translateX_unlagged springRest_def toggleDrawer_def
        getDrawerTranslationX_def minmax_def)
qed


lemma targets_distinct:
  "0 < drawerWidth \<Longrightarrow>
   getDrawerTranslationX p drawerWidth a = getDrawerTranslationX p drawerWidth b \<longleftrightarrow> a = b"
  by (auto simp add: getDrawerTranslationX_def)

section \<open>The clamped offset stays within the travel range\<close>

text \<open>
  C1. After any sequence of gesture callbacks, toggles and spring frames, whatever the
  translations, touch positions and velocities they carry and whatever numbers the spring
  writes, the derived \<^verbatim>\<open>translateX\<close> lies in \<open>[-drawerWidth, 0]\<close> for a drawer on the left
  and in \<open>[width - drawerWidth, width]\<close> of the viewport for a drawer on the right. The
  drawer width is a width: it is not negative.
\<close>

theorem C1_translateX_within_travel_range:
  assumes "0 \<le> drawerWidth"
  shows "(drawerPosition p = Left \<longrightarrow>
            - drawerWidth \<le> translateX p drawerWidth (foldl (frame p drawerWidth) m0 frames) \<and>
            translateX p drawerWidth (foldl (frame p drawerWidth) m0 frames) \<le> 0) \<and>
         (drawerPosition p = Right \<longrightarrow>
            width (dimensions p) - drawerWidth
              \<le> translateX p drawerWidth (foldl (frame p drawerWidth) m0 frames) \<and>
            translateX p drawerWidth (foldl (frame p drawerWidth) m0 frames)
              \<le> width (dimensions p))"
  using translateX_bounds [OF assms] by blast

theorem C1_translateX_within_travel_range_witness:
  "(0::real) \<le> 300 \<and>
   drawerPosition (example_props Left Front) = Left \<and>
   - 300 \<le> translateX (example_props Left Front) 300
              (foldl (frame (example_props Left Front) 300) (at_rest (- 300))
                 [GestureStart (sample ACTIVE 20 0 0),
                  GestureActive (sample ACTIVE 20 5000 90000)]) \<and>
   translateX (example_props Left Front) 300
     (foldl (frame (example_props Left Front) 300) (at_rest (- 300))
        [GestureStart (sample ACTIVE 20 0 0),
         GestureActive (sample ACTIVE 20 5000 90000)]) \<le> 0"
  using C1_translateX_within_travel_range
          [of 300 "example_props Left Front" "at_rest (- 300)"
              "[GestureStart (sample ACTIVE 20 0 0),
                GestureActive (sample ACTIVE 20 5000 90000)]"]
  by (simp add: example_props_def)

section \<open>The overlay\<close>

text \<open>
  C6. For every value of \<^verbatim>\<open>progress\<close>, the opacity of the overlay is that value, unclamped;
  the overlay is behind its siblings (\<^verbatim>\<open>zIndex\<close> -1) when the value is at most 0.05 and in
  front (\<^verbatim>\<open>zIndex\<close> 0) when it is above; at exactly 0.05 it is behind.
\<close>

theorem C6_overlay_opacity_and_stacking:
  "opacity (animatedStyle progress_value) = progress_value \<and>
   (le progress_value (5 / 100) \<longrightarrow> zIndex (animatedStyle progress_value) = - 1) \<and>
   (gt progress_value (5 / 100) \<longrightarrow> zIndex (animatedStyle progress_value) = 0) \<and>
   zIndex (animatedStyle (Finite (5 / 100))) = - 1"
  by (cases progress_value) (simp_all add: animatedStyle_def PROGRESS_EPSILON_def)

theorem C6_overlay_opacity_and_stacking_witness:
  "le (Finite (4 / 100)) (5 / 100) \<and> zIndex (animatedStyle (Finite (4 / 100))) = - 1 \<and>
   opacity (animatedStyle (Finite (4 / 100))) = Finite (4 / 100) \<and>
   gt (Finite (6 / 100)) (5 / 100) \<and> zIndex (animatedStyle (Finite (6 / 100))) = 0"
  using C6_overlay_opacity_and_stacking [of "Finite (4 / 100)"]
        C6_overlay_opacity_and_stacking [of "Finite (6 / 100)"]
  by simp

section \<open>The end of a gesture\<close>

text \<open>
  C2, as the specification words it, fails: with a distance threshold of 2, below the
  minimum distance 5, a gesture that ends after a translation of 3 with no velocity opens
  a closed drawer on the left, where the worded rule keeps the requested intent.
\<close>

theorem C2_nextOpen_counterexample:
  "nextOpen ((example_props Left Front) \<lparr> swipeDistanceThreshold := 2 \<rparr>) (sample END 20 3 0) \<and>
   \<not> spec_nextOpen ((example_props Left Front) \<lparr> swipeDistanceThreshold := 2 \<rparr>)
        (sample END 20 3 0) \<and>
   \<not> open_prop ((example_props Left Front) \<lparr> swipeDistanceThreshold := 2 \<rparr>)"
  by (simp add: nextOpen_def spec_nextOpen_def effectiveSpeed_def example_props_def
      sample_def SWIPE_DISTANCE_MINIMUM_def)

text \<open>
  C2, amended. For every sample at the end of a gesture and all thresholds: when the
  translation exceeds in absolute value both the minimum distance 5 and the velocity
  threshold, or exceeds the distance threshold alone, the direction decides (on the left,
  open iff the effective speed, the velocity if it is not zero and the translation
  otherwise, is positive; on the right, iff it is negative); otherwise the target is the
  requested intent. This is the worded rule whenever the distance threshold is at least 5,
  and a sample with no translation and no velocity keeps the intent whenever the distance
  threshold is not negative.
\<close>

theorem C2_nextOpen_rule:
  "nextOpen p event =
     (if (\<bar>event_translationX event\<bar> > 5 \<and>
          \<bar>event_translationX event\<bar> > swipeVelocityThreshold p) \<or>
         \<bar>event_translationX event\<bar> > swipeDistanceThreshold p
      then (if drawerPosition p = Left then effectiveSpeed event > 0
            else effectiveSpeed event < 0)
      else open_prop p) \<and>
   (5 \<le> swipeDistanceThreshold p \<longrightarrow> nextOpen p event = spec_nextOpen p event) \<and>
   (0 \<le> swipeDistanceThreshold p \<and> event_translationX event = 0 \<and> event_velocityX event = 0
      \<longrightarrow> nextOpen p event = open_prop p)"
  by (auto simp add: nextOpen_def spec_nextOpen_def effectiveSpeed_def
      SWIPE_DISTANCE_MINIMUM_def)

theorem C2_nextOpen_rule_witness:
  "(5::real) \<le> swipeDistanceThreshold (example_props Left Front) \<and>
   nextOpen (example_props Left Front) (sample END 20 80 0) \<and>
   spec_nextOpen (example_props Left Front) (sample END 20 80 0) \<and>
   event_translationX (sample END 20 0 0) = 0 \<and> event_velocityX (sample END 20 0 0) = 0 \<and>
   nextOpen ((example_props Left Front) \<lparr> open_prop := True \<rparr>) (sample END 20 0 0)"
  using C2_nextOpen_rule [of "example_props Left Front" "sample END 20 80 0"]
        C2_nextOpen_rule [of "(example_props Left Front) \<lparr> open_prop := True \<rparr>"
                             "sample END 20 0 0"]
  by (simp add: example_props_def sample_def effectiveSpeed_def nextOpen_def
      spec_nextOpen_def SWIPE_DISTANCE_MINIMUM_def SWIPE_DISTANCE_THRESHOLD_DEFAULT_def)

section \<open>The width of the drawer\<close>

lemma endsWith_percent_append: "endsWith_percent (ds @ ''%'')"
  by (simp add: endsWith_percent_def)

lemma replace_percent_append: "replace_percent (ds @ ''%'') = ds"
  by (simp add: replace_percent_def endsWith_percent_def)

lemma getDrawerWidth_percent:
  "flatten_width (drawerStyle p) = Some (Str (ds @ ''%'')) \<Longrightarrow>
   getDrawerWidth Number p =
     (case Number ds of Finite percentage \<Rightarrow> width (dimensions p) * (percentage / 100)
      | _ \<Rightarrow> 0)"
  by (simp add: getDrawerWidth_def endsWith_percent_append replace_percent_append)

lemma getDrawerWidth_default:
  "flatten_width (drawerStyle p) = None \<Longrightarrow>
   getDrawerWidth Number p =
     (case Number ''80'' of Finite percentage \<Rightarrow> width (dimensions p) * (percentage / 100)
      | _ \<Rightarrow> 0)"
  by (simp add: getDrawerWidth_def DEFAULT_DRAWER_WIDTH_def endsWith_percent_def
      replace_percent_def)

text \<open>
  C8. \<^verbatim>\<open>getDrawerWidth\<close> always returns a number, substituting for a malformed width:
  a percentage string whose numeric part \<^verbatim>\<open>Number\<close> converts to NaN or an infinity gives 0;
  a missing style, or a style with no width, gives 80 percent of the viewport width
  (\<^verbatim>\<open>Number\<close> converting the decimal literal 80 to 80); a percentage string whose numeric
  part converts to the finite \<open>pc\<close> gives the viewport width times \<open>pc / 100\<close>; a numeric
  width is returned as it is.
\<close>

theorem C8_getDrawerWidth_substitutes:
  "(flatten_width (drawerStyle p) = Some (Str (ds @ ''%'')) \<and>
      Number ds \<in> {NaN, PosInfinity, NegInfinity} \<longrightarrow> getDrawerWidth Number p = 0) \<and>
   (flatten_width (drawerStyle p) = None \<and> Number ''80'' = Finite 80 \<longrightarrow>
      getDrawerWidth Number p = width (dimensions p) * (80 / 100)) \<and>
   (flatten_width (drawerStyle p) = Some (Str (ds @ ''%'')) \<and> Number ds = Finite pc \<longrightarrow>
      getDrawerWidth Number p = width (dimensions p) * pc / 100) \<and>
   (flatten_width (drawerStyle p) = Some (Num n) \<longrightarrow> getDrawerWidth Number p = n)"
proof (intro conjI impI)
  assume "flatten_width (drawerStyle p) = Some (Str (ds @ ''%'')) \<and>
          Number ds \<in> {NaN, PosInfinity, NegInfinity}"
  then show "getDrawerWidth Number p = 0"
    by (auto simp add: getDrawerWidth_percent)
next
  assume "flatten_width (drawerStyle p) = None \<and> Number ''80'' = Finite 80"
  then show "getDrawerWidth Number p = width (dimensions p) * (80 / 100)"
    by (simp add: getDrawerWidth_default)
next
  assume "flatten_width (drawerStyle p) = Some (Str (ds @ ''%'')) \<and> Number ds = Finite pc"
  then show "getDrawerWidth Number p = width (dimensions p) * pc / 100"
    by (simp add: getDrawerWidth_percent)
next
  assume "flatten_width (drawerStyle p) = Some (Num n)"
  then show "getDrawerWidth Number p = n"
    by (simp add: getDrawerWidth_def)
qed

text \<open>
  An instance, with \<open>example_Number\<close> for \<^verbatim>\<open>Number\<close>: the widths \<^verbatim>\<open>'abc%'\<close> and
  \<^verbatim>\<open>'Infinity%'\<close>, a missing style, the width \<^verbatim>\<open>'50%'\<close>, and the width 300, on a
  viewport 400 wide.
\<close>

theorem C8_getDrawerWidth_substitutes_witness:
  "getDrawerWidth example_Number
     ((example_props Left Front)
        \<lparr> drawerStyle := Some \<lparr> style_width = Some (Str ''abc%'') \<rparr> \<rparr>) = 0 \<and>
   getDrawerWidth example_Number
     ((example_props Left Front)
        \<lparr> drawerStyle := Some \<lparr> style_width = Some (Str ''Infinity%'') \<rparr> \<rparr>) = 0 \<and>
   getDrawerWidth example_Number (example_props Left Front) = 320 \<and>
   getDrawerWidth example_Number
     ((example_props Left Front)
        \<lparr> drawerStyle := Some \<lparr> style_width = Some (Str ''50%'') \<rparr> \<rparr>) = 200 \<and>
   getDrawerWidth example_Number
     ((example_props Left Front)
        \<lparr> drawerStyle := Some \<lparr> style_width = Some (Num 300) \<rparr> \<rparr>) = 300"
  using C8_getDrawerWidth_substitutes
          [of "(example_props Left Front)
                 \<lparr> drawerStyle := Some \<lparr> style_width = Some (Str ''abc%'') \<rparr> \<rparr>"
              "''abc''" example_Number]
        C8_getDrawerWidth_substitutes
          [of "(example_props Left Front)
                 \<lparr> drawerStyle := Some \<lparr> style_width = Some (Str ''Infinity%'') \<rparr> \<rparr>"
              "''Infinity''" example_Number]
        C8_getDrawerWidth_substitutes
          [of "example_props Left Front" "[]" example_Number]
        C8_getDrawerWidth_substitutes
          [of "(example_props Left Front)
                 \<lparr> drawerStyle := Some \<lparr> style_width = Some (Str ''50%'') \<rparr> \<rparr>"
              "''50''" example_Number 50]
        C8_getDrawerWidth_substitutes
          [of "(example_props Left Front)
                 \<lparr> drawerStyle := Some \<lparr> style_width = Some (Num 300) \<rparr> \<rparr>"
              "[]" example_Number 0 300]
  by (simp add: example_props_def flatten_width_def example_Number_def)

section \<open>Progress\<close>

lemma progress_finite:
  "drawerWidth \<noteq> 0 \<Longrightarrow>
   progress drawerWidth tx = Finite ((drawerWidth - \<bar>tx\<bar>) / drawerWidth)"
  by (simp add: progress_def)

text \<open>
  C10. For a drawer of positive width, \<^verbatim>\<open>progress\<close> is \<open>(drawerWidth - |translateX|) /
  drawerWidth\<close>. On the left it lies in \<open>[0, 1]\<close> whatever the motion. On the right, with a
  viewport wider than the drawer, it is \<open>(2 * drawerWidth - width) / drawerWidth\<close>, below 1,
  at the open offset \<open>width - drawerWidth\<close>, and \<open>(drawerWidth - width) / drawerWidth\<close>,
  below 0, at the closed offset \<open>width\<close>: there it is no openness between 0 and 1.
\<close>

theorem C10_progress_normalised_on_left_only:
  assumes "0 < drawerWidth"
  shows "(drawerPosition p = Left \<longrightarrow>
            (\<exists>x. progress drawerWidth (translateX p drawerWidth m) = Finite x \<and>
                 x = (drawerWidth - \<bar>translateX p drawerWidth m\<bar>) / drawerWidth \<and>
                 0 \<le> x \<and> x \<le> 1)) \<and>
         (drawerPosition p = Right \<and> drawerWidth < width (dimensions p) \<longrightarrow>
            getDrawerTranslationX p drawerWidth True = width (dimensions p) - drawerWidth \<and>
            progress drawerWidth (getDrawerTranslationX p drawerWidth True)
              = Finite ((2 * drawerWidth - width (dimensions p)) / drawerWidth) \<and>
            (2 * drawerWidth - width (dimensions p)) / drawerWidth < 1 \<and>
            getDrawerTranslationX p drawerWidth False = width (dimensions p) \<and>
            progress drawerWidth (getDrawerTranslationX p drawerWidth False)
              = Finite ((drawerWidth - width (dimensions p)) / drawerWidth) \<and>
            (drawerWidth - width (dimensions p)) / drawerWidth < 0)"
proof (intro conjI impI)
  assume left: "drawerPosition p = Left"
  have w: "0 \<le> drawerWidth" using assms by simp
  have "- drawerWidth \<le> translateX p drawerWidth m" "translateX p drawerWidth m \<le> 0"
    using translateX_bounds(1) [OF w left] by simp_all
  then have "0 \<le> drawerWidth - \<bar>translateX p drawerWidth m\<bar>"
            "drawerWidth - \<bar>translateX p drawerWidth m\<bar> \<le> drawerWidth"
    by simp_all
  then have "0 \<le> (drawerWidth - \<bar>translateX p drawerWidth m\<bar>) / drawerWidth"
            "(drawerWidth - \<bar>translateX p drawerWidth m\<bar>) / drawerWidth \<le> 1"
    using assms by (simp_all add: divide_simps)
  then show "\<exists>x. progress drawerWidth (translateX p drawerWidth m) = Finite x \<and>
                 x = (drawerWidth - \<bar>translateX p drawerWidth m\<bar>) / drawerWidth \<and>
                 0 \<le> x \<and> x \<le> 1"
    using assms by (simp add: progress_finite)
next
  assume r: "drawerPosition p = Right \<and> drawerWidth < width (dimensions p)"
  then show "getDrawerTranslationX p drawerWidth True = width (dimensions p) - drawerWidth"
    by (simp add: getDrawerTranslationX_def)
  from r show "getDrawerTranslationX p drawerWidth False = width (dimensions p)"
    by (simp add: getDrawerTranslationX_def)
  from r assms
  show "progress drawerWidth (getDrawerTranslationX p drawerWidth True)
          = Finite ((2 * drawerWidth - width (dimensions p)) / drawerWidth)"
    by (simp add: progress_finite getDrawerTranslationX_def)
  from r assms
  show "progress drawerWidth (getDrawerTranslationX p drawerWidth False)
          = Finite ((drawerWidth - width (dimensions p)) / drawerWidth)"
    by (simp add: progress_finite getDrawerTranslationX_def)
  from r assms show "(2 * drawerWidth - width (dimensions p)) / drawerWidth < 1"
    by (simp add: divide_simps)
  from r assms show "(drawerWidth - width (dimensions p)) / drawerWidth < 0"
    by (simp add: divide_simps)
qed

theorem C10_progress_normalised_on_left_only_witness:
  "(0::real) < 300 \<and>
   drawerPosition (example_props Right Front) = Right \<and>
   (300::real) < width (dimensions (example_props Right Front)) \<and>
   progress 300 (getDrawerTranslationX (example_props Right Front) 300 True) = Finite (2 / 3) \<and>
   progress 300 (getDrawerTranslationX (example_props Right Front) 300 False)
     = Finite (- 1 / 3) \<and>
   drawerPosition (example_props Left Front) = Left \<and>
   progress 300 (translateX (example_props Left Front) 300 (at_rest (- 150))) = Finite (1 / 2)"
  using C10_progress_normalised_on_left_only
          [of 300 "example_props Right Front" "at_rest 0"]
        C10_progress_normalised_on_left_only
          [of 300 "example_props Left Front" "at_rest (- 150)"]
  by (simp add: example_props_def at_rest_def translateX_def touchDistance_def minmax_def
      getDrawerTranslationX_def progress_def)

section \<open>The front drawer and a touch outside it\<close>

text \<open>
  C4, as stated, fails: on a closed front drawer on the left, of width 300 and at offset
  -300, a gesture that starts at touch position 350 and has moved by 10, less than 50,
  has already taken the clamped offset from -300 to 0.
\<close>

theorem C4_front_closed_counterexample:
  "translateX (example_props Left Front) 300 (at_rest (- 300)) = - 300 \<and>
   translateX (example_props Left Front) 300
     (onActive (sample ACTIVE 350 10 0) (onStart (sample ACTIVE 350 0 0) (at_rest (- 300)))) = 0"
  by (simp add: translateX_def touchDistance_def minmax_def onActive_def onStart_def
      sample_def at_rest_def example_props_def)

text \<open>
  C4, amended. For a front drawer and an active gesture, \<^verbatim>\<open>translateX\<close> is the raw offset
  less the correction \<open>min (translationX - touchX + drawerWidth) 0\<close> on the left,
  \<open>min (translationX - touchX) (width - drawerWidth)\<close> on the right, clamped to the travel
  range. For a front drawer on the left of width 300 that is open, at offset 0, a gesture
  that starts at touch position 350, outside the drawer, and moves by \<open>t\<close> leaves the
  drawer at 0 as long as \<open>t\<close> has not passed -50, the finger not having reached the edge of
  the drawer, and from there on down to -350 the offset is \<open>t + 50\<close>: it follows the
  translation one to one.
\<close>

theorem C4_front_touch_distance:
  "(drawerType p = Front \<and> gestureState_value m = ACTIVE \<longrightarrow>
      translateX p drawerWidth m =
        (if drawerPosition p = Left
         then minmax (translationX_value m
                       - min (translationX_value m - touchX_value m + drawerWidth) 0)
                     (- drawerWidth) 0
         else minmax (translationX_value m
                       - min (translationX_value m - touchX_value m)
                             (width (dimensions p) - drawerWidth))
                     (width (dimensions p) - drawerWidth) (width (dimensions p)))) \<and>
   (drawerType p = Front \<and> drawerPosition p = Left \<and> translationX_value m = 0 \<longrightarrow>
      (- 50 \<le> t \<longrightarrow>
         translateX p 300 (onActive (sample ACTIVE 350 t v) (onStart event m)) = 0) \<and>
      (- 350 \<le> t \<and> t \<le> - 50 \<longrightarrow>
         translateX p 300 (onActive (sample ACTIVE 350 t v) (onStart event m)) = t + 50))"
  by (auto simp add: translateX_def touchDistance_def minmax_def onActive_def onStart_def
      sample_def)

theorem C4_front_touch_distance_witness:
  "drawerType (example_props Left Front) = Front \<and>
   drawerPosition (example_props Left Front) = Left \<and>
   translationX_value (at_rest 0) = 0 \<and>
   translateX (example_props Left Front) 300
     (onActive (sample ACTIVE 350 (- 30) 0) (onStart (sample ACTIVE 350 0 0) (at_rest 0))) = 0 \<and>
   translateX (example_props Left Front) 300
     (onActive (sample ACTIVE 350 (- 120) 0) (onStart (sample ACTIVE 350 0 0) (at_rest 0)))
     = - 70 \<and>
   gestureState_value
     (onActive (sample ACTIVE 350 (- 120) 0) (onStart (sample ACTIVE 350 0 0) (at_rest 0)))
     = ACTIVE"
  using C4_front_touch_distance
          [where p = "example_props Left Front" and m = "at_rest 0" and drawerWidth = 300
             and event = "sample ACTIVE 350 0 0" and t = "- 30" and v = 0]
        C4_front_touch_distance
          [where p = "example_props Left Front"
             and m = "onActive (sample ACTIVE 350 (- 120) 0)
                        (onStart (sample ACTIVE 350 0 0) (at_rest 0))"
             and drawerWidth = 300 and event = "sample ACTIVE 350 0 0" and t = "- 120"
             and v = 0]
        C4_front_touch_distance
          [where p = "example_props Left Front" and m = "at_rest 0" and drawerWidth = 300
             and event = "sample ACTIVE 350 0 0" and t = "- 120" and v = 0]
  by (simp add: example_props_def at_rest_def sample_def onActive_def onStart_def)

section \<open>The interaction handle\<close>

lemma host_frame_no_boundary: "\<not> gesture_boundary fr \<Longrightarrow> host_frame p h fr = h"
  by (cases fr) simp_all

lemma reaction_handles:
  "interactionHandleRef (reaction p drawerWidth m h) = interactionHandleRef h"
  "interactionHandles (reaction p drawerWidth m h) = interactionHandles h"
  "nextHandle (reaction p drawerWidth m h) = nextHandle h"
  by (simp_all add: reaction_def reaction_react_def split: option.splits)

lemma onGestureStart_handles:
  "interactionHandleRef (onGestureStart p h) = Some (nextHandle h)"
  "interactionHandles (onGestureStart p h) = insert (nextHandle h) (interactionHandles h)"
  by (simp_all add: onGestureStart_def hideStatusBar_def hideKeyboard_def startInteraction_def)

lemma onGestureEnd_handles:
  "interactionHandleRef (onGestureEnd h) = None"
  "interactionHandles (onGestureEnd h) =
     (case interactionHandleRef h of None \<Rightarrow> interactionHandles h
      | Some k \<Rightarrow> interactionHandles h - {k})"
  by (simp_all add: onGestureEnd_def endInteraction_def split: option.splits)

lemma run_no_boundary:
  "\<forall>fr\<in>set frames. \<not> gesture_boundary fr \<Longrightarrow>
   interactionHandleRef (snd (run p drawerWidth s frames)) = interactionHandleRef (snd s) \<and>
   interactionHandles (snd (run p drawerWidth s frames)) = interactionHandles (snd s)"
proof (induction frames arbitrary: s)
  case Nil
  then show ?case by (simp add: run_def)
next
  case (Cons fr frames)
  then have nb: "\<not> gesture_boundary fr" and rest: "\<forall>fr\<in>set frames. \<not> gesture_boundary fr"
    by simp_all
  show ?case
    using Cons.IH [OF rest, of "step p drawerWidth s fr"] nb
    by (simp add: run_Cons snd_step reaction_handles host_frame_no_boundary)
qed

text \<open>
  C9, as stated, fails: the component has no cleanup that calls \<^verbatim>\<open>endInteraction\<close>, so a
  drawer unmounted after a gesture has started and before it has ended leaves its
  interaction handle with \<^verbatim>\<open>InteractionManager\<close>.
\<close>

theorem C9_interaction_counterexample:
  "interactionHandleRef
     (unmount (example_props Left Front)
        (snd (run (example_props Left Front) 300 (at_rest (- 300), idle_host)
                [GestureStart (sample ACTIVE 20 0 0), GestureActive (sample ACTIVE 20 40 100)])))
     = Some 1 \<and>
   interactionHandles
     (unmount (example_props Left Front)
        (snd (run (example_props Left Front) 300 (at_rest (- 300), idle_host)
                [GestureStart (sample ACTIVE 20 0 0), GestureActive (sample ACTIVE 20 40 100)])))
     = {1}"
  by (simp add: run_def snd_step fst_step reaction_handles onGestureStart_handles
      unmount_def hideStatusBar_def example_props_def idle_host_def)

text \<open>
  C9, amended. The interaction handle is taken exactly at the start of a gesture and given
  back at its end, paired around the gesture: from a host that holds none, frames that
  neither start nor end a gesture take none; the start of a gesture takes one, which stays
  the only one through the frames that follow; and the end of the gesture gives it back,
  leaving none.
\<close>

theorem C9_interaction_paired:
  assumes "interactionHandleRef h = None"
    and "interactionHandles h = {}"
    and "\<forall>fr\<in>set frames. \<not> gesture_boundary fr"
  shows "interactionHandles (snd (run p drawerWidth (m, h) frames)) = {} \<and>
         interactionHandleRef
             (snd (run p drawerWidth (m, h) (GestureStart event # frames)))
           = Some (nextHandle h) \<and>
         interactionHandles
             (snd (run p drawerWidth (m, h) (GestureStart event # frames)))
           = {nextHandle h} \<and>
         interactionHandleRef
             (snd (run p drawerWidth (m, h) (GestureStart event # frames @ [GestureEnd event'])))
           = None \<and>
         interactionHandles
             (snd (run p drawerWidth (m, h) (GestureStart event # frames @ [GestureEnd event'])))
           = {}"
proof -
  let ?s1 = "step p drawerWidth (m, h) (GestureStart event)"
  let ?s2 = "run p drawerWidth ?s1 frames"
  have s1: "interactionHandleRef (snd ?s1) = Some (nextHandle h)"
           "interactionHandles (snd ?s1) = {nextHandle h}"
    using assms(2) by (simp_all add: snd_step reaction_handles onGestureStart_handles)
  have s2: "interactionHandleRef (snd ?s2) = Some (nextHandle h)"
           "interactionHandles (snd ?s2) = {nextHandle h}"
    using run_no_boundary [OF assms(3), of p drawerWidth ?s1] s1 by simp_all
  have r2: "run p drawerWidth (m, h) (GestureStart event # frames) = ?s2"
    by (rule run_Cons)
  have r3: "run p drawerWidth (m, h) (GestureStart event # frames @ [GestureEnd event'])
              = step p drawerWidth ?s2 (GestureEnd event')"
    using run_snoc [of p drawerWidth "(m, h)" "GestureStart event # frames" "GestureEnd event'"]
    by (simp add: run_Cons)
  have c0: "interactionHandles (snd (run p drawerWidth (m, h) frames)) = {}"
    using run_no_boundary [OF assms(3), of p drawerWidth "(m, h)"] assms(2) by simp
  have c3: "interactionHandleRef (snd (step p drawerWidth ?s2 (GestureEnd event'))) = None"
    by (simp add: snd_step reaction_handles onGestureEnd_handles)
  have c4: "interactionHandles (snd (step p drawerWidth ?s2 (GestureEnd event'))) = {}"
    using s2 by (simp add: snd_step reaction_handles onGestureEnd_handles)
  show ?thesis
    unfolding r3 r2 using c0 s2 c3 c4 by blast
qed

theorem C9_interaction_paired_witness:
  "interactionHandleRef idle_host = None \<and> interactionHandles idle_host = {} \<and>
   \<not> gesture_boundary (GestureActive (sample ACTIVE 20 40 100)) \<and>
   interactionHandles
     (snd (run (example_props Left Front) 300 (at_rest (- 300), idle_host)
             (GestureStart (sample ACTIVE 20 0 0) # [GestureActive (sample ACTIVE 20 40 100)])))
     = {1} \<and>
   interactionHandles
     (snd (run (example_props Left Front) 300 (at_rest (- 300), idle_host)
             (GestureStart (sample ACTIVE 20 0 0) # [GestureActive (sample ACTIVE 20 40 100)]
                @ [GestureEnd (sample END 20 90 600)])))
     = {}"
  using C9_interaction_paired
          [where h = idle_host and frames = "[GestureActive (sample ACTIVE 20 40 100)]"
             and p = "example_props Left Front" and drawerWidth = 300
             and m = "at_rest (- 300)" and event = "sample ACTIVE 20 0 0"
             and event' = "sample END 20 90 600"]
  by (simp add: idle_host_def)

section \<open>The permanent drawer\<close>

text \<open>
  C7, as stated, fails on both counts. A permanent drawer on the left, of width 300, whose
  host has \<^verbatim>\<open>open = false\<close> is sent to the closed target by the effect that calls
  \<^verbatim>\<open>toggleDrawer(open)\<close>, and once the spring rests there \<^verbatim>\<open>isOpenSettled\<close> is false. And
  the props spread onto the gesture handler come after the component's own
  \<^verbatim>\<open>enabled\<close>: with \<^verbatim>\<open>gestureHandlerProps = {enabled: true}\<close> the recognizer of a permanent
  drawer receives \<^verbatim>\<open>true\<close>, with \<^verbatim>\<open>{enabled: undefined}\<close> it receives \<^verbatim>\<open>undefined\<close>.
\<close>

theorem C7_permanent_counterexample:
  "drawerType (example_props Left Permanent) = Permanent \<and>
   \<not> isOpenSettled (example_props Left Permanent) 300
        (fst (run (example_props Left Permanent) 300 (at_rest 0, idle_host)
                [Toggle (open_prop (example_props Left Permanent)) None, SpringRest])) \<and>
   panGestureHandler_enabled ((example_props Left Permanent)
       \<lparr> gestureHandlerProps := Some \<lparr> enabled = Present (Some True) \<rparr> \<rparr>) = Some True \<and>
   panGestureHandler_enabled ((example_props Left Permanent)
       \<lparr> gestureHandlerProps := Some \<lparr> enabled = Present None \<rparr> \<rparr>) = None"
  by (simp add: panGestureHandler_enabled_def example_props_def isOpenSettled_def run_def
      step_pair springRest_def toggleDrawer_def translateX_def touchDistance_def minmax_def
      getDrawerTranslationX_def at_rest_def idle_host_def)

text \<open>
  C7, amended. For a permanent drawer the render-time \<^verbatim>\<open>isOpen\<close> is true whatever the
  \<^verbatim>\<open>open\<close> prop is, while \<^verbatim>\<open>isOpenSettled\<close> follows the prop: once the spring that
  \<^verbatim>\<open>toggleDrawer(open)\<close> started rests, it is true iff \<^verbatim>\<open>open\<close> is, for a drawer of positive
  width. The component's own value of \<^verbatim>\<open>enabled\<close> is false whatever \<^verbatim>\<open>gestureEnabled\<close> and
  \<^verbatim>\<open>swipeEnabled\<close> are, and it is what the recognizer receives unless the spread
  \<^verbatim>\<open>gestureHandlerProps\<close> own a key \<^verbatim>\<open>enabled\<close>, whose value, true, false or undefined, the
  recognizer then receives instead.
\<close>

theorem C7_permanent_open_and_disabled:
  assumes "drawerType p = Permanent"
  shows "isOpen (p \<lparr> open_prop := b, gestureEnabled := ge, swipeEnabled := se \<rparr>) \<and>
         (0 < drawerWidth \<longrightarrow>
            (isOpenSettled p drawerWidth
               (springRest (toggleDrawer p drawerWidth (open_prop p) v m))
             \<longleftrightarrow> open_prop p)) \<and>
         (gestureHandlerProps p = None \<or>
          (gestureHandlerProps p = Some g \<and> enabled g = Absent) \<longrightarrow>
            panGestureHandler_enabled (p \<lparr> gestureEnabled := ge, swipeEnabled := se \<rparr>)
              = Some False) \<and>
         (gestureHandlerProps p = Some g \<and> enabled g = Present e \<longrightarrow>
            panGestureHandler_enabled (p \<lparr> gestureEnabled := ge, swipeEnabled := se \<rparr>) = e)"
proof (intro conjI impI)
  show "isOpen (p \<lparr> open_prop := b, gestureEnabled := ge, swipeEnabled := se \<rparr>)"
    using assms by (simp add: isOpen_def)
next
  assume w: "0 < drawerWidth"
  have nf: "drawerType p \<noteq> Front \<or> gestureState_value m \<noteq> ACTIVE"
    using assms by simp
  have "translateX p drawerWidth (springRest (toggleDrawer p drawerWidth (open_prop p) v m))
          = getDrawerTranslationX p drawerWidth (open_prop p)"
    using translateX_springRest_toggleDrawer [OF _ nf, of drawerWidth "open_prop p" v] w
    by simp
  then show "isOpenSettled p drawerWidth
               (springRest (toggleDrawer p drawerWidth (open_prop p) v m))
             \<longleftrightarrow> open_prop p"
    using targets_distinct [OF w, of p "open_prop p" True]
    by (simp add: isOpenSettled_def)
next
  assume "gestureHandlerProps p = None \<or>
          (gestureHandlerProps p = Some g \<and> enabled g = Absent)"
  then show "panGestureHandler_enabled (p \<lparr> gestureEnabled := ge, swipeEnabled := se \<rparr>)
               = Some False"
    using assms by (auto simp add: panGestureHandler_enabled_def)
next
  assume "gestureHandlerProps p = Some g \<and> enabled g = Present e"
  then show "panGestureHandler_enabled (p \<lparr> gestureEnabled := ge, swipeEnabled := se \<rparr>) = e"
    by (simp add: panGestureHandler_enabled_def)
qed

theorem C7_permanent_open_and_disabled_witness:
  "drawerType (example_props Left Permanent) = Permanent \<and>
   isOpen ((example_props Left Permanent)
       \<lparr> open_prop := False, gestureEnabled := True, swipeEnabled := True \<rparr>) \<and>
   (0::real) < 300 \<and>
   isOpenSettled ((example_props Left Permanent) \<lparr> open_prop := True \<rparr>) 300
     (springRest (toggleDrawer ((example_props Left Permanent) \<lparr> open_prop := True \<rparr>) 300
                    True None (at_rest (- 300)))) \<and>
   gestureHandlerProps (example_props Left Permanent) = None \<and>
   panGestureHandler_enabled
       ((example_props Left Permanent) \<lparr> gestureEnabled := True, swipeEnabled := True \<rparr>)
     = Some False \<and>
   panGestureHandler_enabled
       ((example_props Left Permanent)
          \<lparr> gestureHandlerProps := Some \<lparr> enabled = Present (Some False) \<rparr>,
            gestureEnabled := True, swipeEnabled := True \<rparr>)
     = Some False"
  using C7_permanent_open_and_disabled
          [where p = "example_props Left Permanent" and b = False and ge = True and se = True
             and drawerWidth = 300 and g = "\<lparr> enabled = Absent \<rparr>"]
        C7_permanent_open_and_disabled
          [where p = "(example_props Left Permanent) \<lparr> open_prop := True \<rparr>"
             and drawerWidth = 300 and v = None and m = "at_rest (- 300)"
             and g = "\<lparr> enabled = Absent \<rparr>"]
        C7_permanent_open_and_disabled
          [where p = "(example_props Left Permanent)
                        \<lparr> gestureHandlerProps := Some \<lparr> enabled = Present (Some False) \<rparr> \<rparr>"
             and ge = True and se = True and g = "\<lparr> enabled = Present (Some False) \<rparr>"
             and e = "Some False"]
  by (simp add: example_props_def)

section \<open>The reaction\<close>

text \<open>
  C3, as stated, fails: \<^verbatim>\<open>setOpen\<close> is also invoked when the settled openness has not
  changed, and before the offset has settled. A closed drawer on the left, of width 300, is
  asked to open and its spring comes to rest: \<^verbatim>\<open>setOpen(true)\<close>. A finger then drags the
  open drawer by -10 and back to 0 without lifting: \<^verbatim>\<open>setOpen(true)\<close> again, the gesture still
  active. These are the calls with the reaction evaluated only after frames that change the
  clamped offset; evaluated after every frame, it makes them and more.
\<close>

theorem C3_setOpen_counterexample:
  "setOpen_calls (calls (snd
     (run_on_change ((example_props Left Front) \<lparr> open_prop := True \<rparr>) 300
        (at_rest (- 300), idle_host)
        [Toggle True None, SpringFrame (- 150), SpringRest,
         GestureStart (sample ACTIVE 100 0 0), GestureActive (sample ACTIVE 100 (- 10) 0),
         GestureActive (sample ACTIVE 100 0 0)]))) = [True, True] \<and>
   setOpen_calls (calls (snd
     (run ((example_props Left Front) \<lparr> open_prop := True \<rparr>) 300
        (at_rest (- 300), idle_host)
        [Toggle True None, SpringFrame (- 150), SpringRest,
         GestureStart (sample ACTIVE 100 0 0), GestureActive (sample ACTIVE 100 (- 10) 0),
         GestureActive (sample ACTIVE 100 0 0)]))) = [False, True, True, True] \<and>
   gestureState_value (fst
     (run ((example_props Left Front) \<lparr> open_prop := True \<rparr>) 300
        (at_rest (- 300), idle_host)
        [Toggle True None, SpringFrame (- 150), SpringRest,
         GestureStart (sample ACTIVE 100 0 0), GestureActive (sample ACTIVE 100 (- 10) 0),
         GestureActive (sample ACTIVE 100 0 0)])) = ACTIVE"
  by (simp add: run_def run_on_change_def step_pair step_on_change_pair springRest_def
      toggleDrawer_def onStart_def onActive_def sample_def translateX_def touchDistance_def
      minmax_def getDrawerTranslationX_def reaction_def reaction_prepare_def
      reaction_react_def onGestureStart_def startInteraction_def hideKeyboard_def
      hideStatusBar_def example_props_def at_rest_def idle_host_def)

text \<open>
  C3, amended. Every evaluation of the reaction invokes \<^verbatim>\<open>setOpen\<close> exactly when the clamped
  offset equals the open or the closed target of the current props, once and with the
  boolean of that target (\<open>True\<close> when the two targets coincide), and keeps no memory of the
  boolean it reported last. So every frame that moves the clamped offset onto a target
  invokes \<^verbatim>\<open>setOpen\<close> once with that boolean, whether or not the settled openness has
  changed and whether or not a gesture is still active, however often the library evaluates
  the reaction; and no frame that leaves the offset strictly between the targets invokes it.
\<close>

theorem C3_setOpen_exactly_at_targets:
  "setOpen_calls (calls (reaction p drawerWidth m h)) =
     setOpen_calls (calls h) @
       (if translateX p drawerWidth m = getDrawerTranslationX p drawerWidth True then [True]
        else if translateX p drawerWidth m = getDrawerTranslationX p drawerWidth False
        then [False] else []) \<and>
   (translateX p drawerWidth (frame p drawerWidth (fst s) fr) \<noteq> translateX p drawerWidth (fst s)
    \<longrightarrow>
      setOpen_calls (calls (snd (step p drawerWidth s fr))) =
        setOpen_calls (calls (snd s)) @
          (if translateX p drawerWidth (frame p drawerWidth (fst s) fr)
                = getDrawerTranslationX p drawerWidth True then [True]
           else if translateX p drawerWidth (frame p drawerWidth (fst s) fr)
                = getDrawerTranslationX p drawerWidth False then [False]
           else []) \<and>
      setOpen_calls (calls (snd (step_on_change p drawerWidth s fr)))
        = setOpen_calls (calls (snd (step p drawerWidth s fr)))) \<and>
   (min (getDrawerTranslationX p drawerWidth False) (getDrawerTranslationX p drawerWidth True)
      < translateX p drawerWidth (frame p drawerWidth (fst s) fr) \<and>
    translateX p drawerWidth (frame p drawerWidth (fst s) fr)
      < max (getDrawerTranslationX p drawerWidth False) (getDrawerTranslationX p drawerWidth True)
    \<longrightarrow>
      setOpen_calls (calls (snd (step p drawerWidth s fr))) = setOpen_calls (calls (snd s)) \<and>
      setOpen_calls (calls (snd (step_on_change p drawerWidth s fr)))
        = setOpen_calls (calls (snd s)))"
proof (intro conjI impI)
  show "setOpen_calls (calls (reaction p drawerWidth m h)) =
     setOpen_calls (calls h) @
       (if translateX p drawerWidth m = getDrawerTranslationX p drawerWidth True then [True]
        else if translateX p drawerWidth m = getDrawerTranslationX p drawerWidth False
        then [False] else [])"
    by (rule setOpen_calls_reaction)
next
  show "setOpen_calls (calls (snd (step p drawerWidth s fr))) =
        setOpen_calls (calls (snd s)) @
          (if translateX p drawerWidth (frame p drawerWidth (fst s) fr)
                = getDrawerTranslationX p drawerWidth True then [True]
           else if translateX p drawerWidth (frame p drawerWidth (fst s) fr)
                = getDrawerTranslationX p drawerWidth False then [False]
           else [])"
    by (simp only: snd_step setOpen_calls_reaction setOpen_calls_host_frame)
next
  assume "translateX p drawerWidth (frame p drawerWidth (fst s) fr)
            \<noteq> translateX p drawerWidth (fst s)"
  then show "setOpen_calls (calls (snd (step_on_change p drawerWidth s fr)))
               = setOpen_calls (calls (snd (step p drawerWidth s fr)))"
    by (simp add: snd_step snd_step_on_change)
next
  assume b: "min (getDrawerTranslationX p drawerWidth False)
                 (getDrawerTranslationX p drawerWidth True)
               < translateX p drawerWidth (frame p drawerWidth (fst s) fr) \<and>
             translateX p drawerWidth (frame p drawerWidth (fst s) fr)
               < max (getDrawerTranslationX p drawerWidth False)
                     (getDrawerTranslationX p drawerWidth True)"
  then have ne:
      "translateX p drawerWidth (frame p drawerWidth (fst s) fr)
         \<noteq> getDrawerTranslationX p drawerWidth True"
      "translateX p drawerWidth (frame p drawerWidth (fst s) fr)
         \<noteq> getDrawerTranslationX p drawerWidth False"
    by auto
  show "setOpen_calls (calls (snd (step p drawerWidth s fr))) = setOpen_calls (calls (snd s))"
    using ne by (simp add: snd_step setOpen_calls_reaction setOpen_calls_host_frame)
  show "setOpen_calls (calls (snd (step_on_change p drawerWidth s fr)))
          = setOpen_calls (calls (snd s))"
    using ne
    by (simp add: snd_step_on_change setOpen_calls_reaction setOpen_calls_host_frame)
qed

theorem C3_setOpen_exactly_at_targets_witness:
  "translateX (example_props Left Front) 300
     (frame (example_props Left Front) 300
        (fst ((at_rest (- 300)) \<lparr> translationX_spring := Some (0, None) \<rparr>, idle_host))
        SpringRest)
     \<noteq> translateX (example_props Left Front) 300
         (fst ((at_rest (- 300)) \<lparr> translationX_spring := Some (0, None) \<rparr>, idle_host)) \<and>
   setOpen_calls (calls (snd (step (example_props Left Front) 300
      ((at_rest (- 300)) \<lparr> translationX_spring := Some (0, None) \<rparr>, idle_host)
      SpringRest))) = [True] \<and>
   setOpen_calls (calls (snd (step_on_change (example_props Left Front) 300
      ((at_rest (- 300)) \<lparr> translationX_spring := Some (0, None) \<rparr>, idle_host)
      SpringRest))) = [True] \<and>
   min (getDrawerTranslationX (example_props Left Front) 300 False)
       (getDrawerTranslationX (example_props Left Front) 300 True)
     < translateX (example_props Left Front) 300
         (frame (example_props Left Front) 300
            (fst ((at_rest (- 300)) \<lparr> translationX_spring := Some (0, None) \<rparr>, idle_host))
            (SpringFrame (- 150))) \<and>
   translateX (example_props Left Front) 300
         (frame (example_props Left Front) 300
            (fst ((at_rest (- 300)) \<lparr> translationX_spring := Some (0, None) \<rparr>, idle_host))
            (SpringFrame (- 150)))
     < max (getDrawerTranslationX (example_props Left Front) 300 False)
           (getDrawerTranslationX (example_props Left Front) 300 True) \<and>
   setOpen_calls (calls (snd (step (example_props Left Front) 300
      ((at_rest (- 300)) \<lparr> translationX_spring := Some (0, None) \<rparr>, idle_host)
      (SpringFrame (- 150))))) = [] \<and>
   setOpen_calls (calls (snd (step_on_change (example_props Left Front) 300
      ((at_rest (- 300)) \<lparr> translationX_spring := Some (0, None) \<rparr>, idle_host)
      (SpringFrame (- 150))))) = []"
  using C3_setOpen_exactly_at_targets
          [where p = "example_props Left Front" and drawerWidth = 300
             and s = "((at_rest (- 300)) \<lparr> translationX_spring := Some (0, None) \<rparr>,
                       idle_host)"
             and fr = SpringRest and m = "at_rest 0" and h = idle_host]
        C3_setOpen_exactly_at_targets
          [where p = "example_props Left Front" and drawerWidth = 300
             and s = "((at_rest (- 300)) \<lparr> translationX_spring := Some (0, None) \<rparr>,
                       idle_host)"
             and fr = "SpringFrame (- 150)" and m = "at_rest 0" and h = idle_host]
  by (simp add: step_pair step_on_change_pair springRest_def example_props_def at_rest_def
      idle_host_def translateX_def touchDistance_def minmax_def getDrawerTranslationX_def
      reaction_def reaction_prepare_def reaction_react_def)

section \<open>Requests to open\<close>










end
